theory Spec2Isabelle
  imports Complex_Main "HOL-Library.Sublist"
begin

section \<open>Values of the runtime\<close>

text \<open>
  The aggregator is untyped at run time: \<open>params\<close>, \<open>result\<close> and \<open>error\<close> are declared
  \<open>any\<close>, the inbound message is whatever \<open>request.json()\<close> produced and a backend's answer
  is whatever \<open>response.json()\<close> produced. The model therefore works on JavaScript values.
  \<open>JUndefined\<close> is the value of a property that is not there (it never comes out of a JSON
  parser, but \<open>message.id\<close> evaluates to it when the message has no id). An object is the list
  of its own properties; after \<open>JSON.parse\<close> its keys are distinct. A number is only ever
  tested for being zero, never computed with.
\<close>

datatype jsval =
    JUndefined
  | JNull
  | JBool bool
  | JNum rat
  | JStr string
  | JArr "jsval list"
  | JObj "(string \<times> jsval) list"

text \<open>
  What a \<open>throw\<close> carries. The only thing the program ever asks of a caught value is
  \<open>error instanceof Error\<close> and, if so, \<open>error.message\<close>.
\<close>

datatype thrown =
    JsError string   \<comment> \<open>an instance of \<open>Error\<close> (TypeError, SyntaxError, ...) and its message\<close>
  | NonError         \<comment> \<open>any thrown value that is not an instance of \<open>Error\<close>\<close>

text \<open>
  \<open>v.k\<close> for the property names the program reads (\<open>method\<close>, \<open>params\<close>, \<open>name\<close>, \<open>id\<close>,
  \<open>error\<close>, \<open>result\<close>, \<open>tools\<close>): none of them is defined on the prototype of strings,
  numbers, booleans, arrays or plain objects, so on those the read gives \<open>undefined\<close> unless
  the object has the property itself. On \<open>null\<close> and \<open>undefined\<close> the read throws a TypeError.
\<close>

definition cannot_read :: "string \<Rightarrow> string \<Rightarrow> thrown" where
  "cannot_read what k =
     JsError (''Cannot read properties of '' @ what @ '' (reading '' @ [CHR 0x27] @ k @ [CHR 0x27] @ '')'')"

fun getprop :: "jsval \<Rightarrow> string \<Rightarrow> thrown + jsval" where
  "getprop JUndefined k = Inl (cannot_read ''undefined'' k)"
| "getprop JNull k = Inl (cannot_read ''null'' k)"
| "getprop (JObj kvs) k = Inr (case map_of kvs k of None \<Rightarrow> JUndefined | Some v \<Rightarrow> v)"
| "getprop v k = Inr JUndefined"

text \<open>\<open>v?.k\<close>: optional chaining never throws.\<close>

definition optchain :: "jsval \<Rightarrow> string \<Rightarrow> jsval" where
  "optchain v k = (case getprop v k of Inl e \<Rightarrow> JUndefined | Inr x \<Rightarrow> x)"

text \<open>Truthiness, as \<open>if (v)\<close> and \<open>!v\<close> test it.\<close>

fun truthy :: "jsval \<Rightarrow> bool" where
  "truthy JUndefined = False"
| "truthy JNull = False"
| "truthy (JBool b) = b"
| "truthy (JNum n) = (n \<noteq> 0)"
| "truthy (JStr s) = (s \<noteq> [])"
| "truthy (JArr xs) = True"
| "truthy (JObj kvs) = True"

text \<open>
  \<open>...v\<close> in an argument list: an array gives its elements, a string gives its characters
  one by one (a \<open>char\<close> of the model stands for one code point), anything else is not
  iterable and the spread throws before the call is made.
\<close>

fun spread :: "jsval \<Rightarrow> thrown + jsval list" where
  "spread (JArr xs) = Inr xs"
| "spread (JStr s) = Inr (map (\<lambda>c. JStr [c]) s)"
| "spread v = Inl (JsError ''Spread syntax requires ...iterable[Symbol.iterator] to be a function'')"

text \<open>\<open>`${n}`\<close> for a natural number, in decimal.\<close>

definition digit :: "nat \<Rightarrow> char" where
  "digit d =
     (if d = 0 then CHR ''0'' else if d = 1 then CHR ''1'' else if d = 2 then CHR ''2''
      else if d = 3 then CHR ''3'' else if d = 4 then CHR ''4'' else if d = 5 then CHR ''5''
      else if d = 6 then CHR ''6'' else if d = 7 then CHR ''7'' else if d = 8 then CHR ''8''
      else CHR ''9'')"

fun show_nat :: "nat \<Rightarrow> string" where
  "show_nat n =
     (if n < 10 then [digit n]
      else show_nat (n div 10) @ [digit (n mod 10)])"

declare show_nat.simps [simp del]

section \<open>The network\<close>

text \<open>
  What the platform's \<open>fetch(serverUrl, {method: 'POST', body: JSON.stringify(message)})\<close>
  can do: reject (throw), or resolve to a response with \<open>ok\<close> (set by the platform exactly on
  a 2xx status), \<open>status\<close>, \<open>statusText\<close> and a body on which \<open>response.json()\<close> either gives
  a value or throws. The network is a parameter of the model: any function of the calls made
  so far, the address and the message sent. The message stands for its serialisation.
\<close>

record backend_response =
  ok :: bool
  status :: nat
  statusText :: string
  json :: "thrown + jsval"

datatype outcome =
    Rejected thrown
  | Responded backend_response

type_synonym call = "string \<times> jsval"

type_synonym network = "call list \<Rightarrow> string \<Rightarrow> jsval \<Rightarrow> outcome"

text \<open>The effects of a run: the outbound calls, in order, and the lines of \<open>console.error\<close>.\<close>

record world =
  calls :: "call list"
  console :: "string list"

section \<open>The aggregator\<close>

record Env =
  EXISTING_MCP_SERVER_URL :: "string option"
  ATLASSIAN_MCP_SERVER_URL :: "string option"

record McpAggregator =
  existingServerUrl :: string
  atlassianServerUrl :: string

text \<open>\<open>a || b\<close> on an optional string: \<open>b\<close> when \<open>a\<close> is undefined or empty.\<close>

definition or_default :: "string option \<Rightarrow> string \<Rightarrow> string" where
  "or_default a b = (case a of None \<Rightarrow> b | Some s \<Rightarrow> if s = [] then b else s)"

definition existing_default :: string where
  "existing_default = ''https://remote-mcp-server-authless.gladden4work.workers.dev''"

definition atlassian_default :: string where
  "atlassian_default = ''https://atlassian-mcp-server.gladden4work.workers.dev''"

definition new_McpAggregator :: "Env \<Rightarrow> McpAggregator" where
  "new_McpAggregator env =
     \<lparr> existingServerUrl = or_default (EXISTING_MCP_SERVER_URL env) existing_default,
       atlassianServerUrl = or_default (ATLASSIAN_MCP_SERVER_URL env) atlassian_default \<rparr>"

subsection \<open>isAtlassianTool\<close>

definition startsWith :: "string \<Rightarrow> string \<Rightarrow> bool" where
  "startsWith s p = prefix p s"

definition atlassianPrefixes :: "string list" where
  "atlassianPrefixes = [''jira_'', ''confluence_'', ''atlassian_'']"

definition isAtlassianTool :: "string \<Rightarrow> bool" where
  "isAtlassianTool toolName = list_ex (\<lambda>pre. startsWith toolName pre) atlassianPrefixes"

text \<open>
  \<open>handleRequest\<close> passes whatever \<open>message.params?.name\<close> is. On a value that is not a string
  \<open>toolName.startsWith\<close> is undefined and calling it throws a TypeError.
\<close>

fun call_isAtlassianTool :: "jsval \<Rightarrow> thrown + bool" where
  "call_isAtlassianTool (JStr toolName) = Inr (isAtlassianTool toolName)"
| "call_isAtlassianTool v = Inl (JsError ''toolName.startsWith is not a function'')"

subsection \<open>forwardRequest\<close>

text \<open>
  The body of the \<open>try\<close>: the call, the test of \<open>response.ok\<close>, the parse of the body.
\<close>

definition attempt :: "outcome \<Rightarrow> thrown + jsval" where
  "attempt out =
     (case out of
        Rejected e \<Rightarrow> Inl e
      | Responded response \<Rightarrow>
          if \<not> ok response
          then Inl (JsError (''Server responded with '' @ show_nat (status response) @ '': '' @ statusText response))
          else json response)"

definition caught_message :: "thrown \<Rightarrow> string" where
  "caught_message e = (case e of JsError m \<Rightarrow> m | NonError \<Rightarrow> ''Unknown error'')"

definition forwardRequest :: "network \<Rightarrow> string \<Rightarrow> jsval \<Rightarrow> world \<Rightarrow> (thrown + jsval) \<times> world" where
  "forwardRequest net serverUrl message w =
     (let w' = w\<lparr>calls := calls w @ [(serverUrl, message)]\<rparr> in
      case attempt (net (calls w) serverUrl message) of
        Inr v \<Rightarrow> (Inr v, w')
      | Inl e \<Rightarrow>
          (case getprop message ''id'' of
             Inl t \<Rightarrow> (Inl t, w')
           | Inr i \<Rightarrow>
               (Inr (JObj [(''jsonrpc'', JStr ''2.0''),
                           (''id'', i),
                           (''error'', JObj [(''code'', JNum (- 32603)),
                                             (''message'', JStr (''Failed to contact server: '' @ caught_message e))])]),
                w')))"

subsection \<open>getAllTools\<close>

text \<open>
  The two \<open>try\<close> blocks of \<open>getAllTools\<close> are the same code on a different address, request id
  and log line; \<open>collectTools\<close> is one such block. Everything that throws inside it is caught
  there and logged.
\<close>

definition tools_list_request :: "rat \<Rightarrow> jsval" where
  "tools_list_request n = JObj [(''jsonrpc'', JStr ''2.0''), (''id'', JNum n), (''method'', JStr ''tools/list'')]"

definition log_error :: "string \<Rightarrow> world \<Rightarrow> world" where
  "log_error line w = w\<lparr>console := console w @ [line]\<rparr>"

definition collectTools ::
  "network \<Rightarrow> string \<Rightarrow> rat \<Rightarrow> string \<Rightarrow> jsval list \<times> world \<Rightarrow> jsval list \<times> world" where
  "collectTools net serverUrl n line tw =
     (case tw of (tools, w) \<Rightarrow>
        (case forwardRequest net serverUrl (tools_list_request n) w of
           (Inl e, w') \<Rightarrow> (tools, log_error line w')
         | (Inr response, w') \<Rightarrow>
             (case getprop response ''result'' of
                Inl e \<Rightarrow> (tools, log_error line w')
              | Inr result \<Rightarrow>
                  if truthy (optchain result ''tools'')
                  then (case spread (optchain result ''tools'') of
                          Inl e \<Rightarrow> (tools, log_error line w')
                        | Inr ts \<Rightarrow> (tools @ ts, w'))
                  else (tools, w'))))"

definition getAllTools :: "McpAggregator \<Rightarrow> network \<Rightarrow> world \<Rightarrow> jsval list \<times> world" where
  "getAllTools this net w =
     collectTools net (atlassianServerUrl this) 2 ''Failed to get tools from Atlassian server:''
       (collectTools net (existingServerUrl this) 1 ''Failed to get tools from existing server:''
          ([], w))"

subsection \<open>handleRequest\<close>

definition initialize_result :: jsval where
  "initialize_result =
     JObj [(''protocolVersion'', JStr ''2024-11-05''),
           (''capabilities'', JObj [(''tools'', JObj [])]),
           (''serverInfo'', JObj [(''name'', JStr ''mcp-aggregator-server''),
                                  (''version'', JStr ''1.0.0'')])]"

text \<open>
  Once \<open>message.method\<close> has been read without a throw, the message is neither \<open>null\<close> nor
  \<open>undefined\<close> and the later reads \<open>message.id\<close> and \<open>message.params\<close> cannot throw; they
  are written with \<open>optchain\<close>, which agrees with \<open>getprop\<close> wherever that returns.
\<close>

definition handleRequest :: "McpAggregator \<Rightarrow> network \<Rightarrow> jsval \<Rightarrow> world \<Rightarrow> (thrown + jsval) \<times> world" where
  "handleRequest this net message w =
     (case getprop message ''method'' of
        Inl e \<Rightarrow> (Inl e, w)
      | Inr method \<Rightarrow>
          if method = JStr ''initialize'' then
            (Inr (JObj [(''jsonrpc'', JStr ''2.0''),
                        (''id'', optchain message ''id''),
                        (''result'', initialize_result)]), w)
          else if method = JStr ''tools/list'' then
            (case getAllTools this net w of
               (allTools, w') \<Rightarrow>
                 (Inr (JObj [(''jsonrpc'', JStr ''2.0''),
                             (''id'', optchain message ''id''),
                             (''result'', JObj [(''tools'', JArr allTools)])]), w'))
          else if method = JStr ''tools/call'' then
            (let toolName = optchain (optchain message ''params'') ''name'' in
             if \<not> truthy toolName then
               (Inr (JObj [(''jsonrpc'', JStr ''2.0''),
                           (''id'', optchain message ''id''),
                           (''error'', JObj [(''code'', JNum (- 32602)),
                                             (''message'', JStr ''Missing tool name in parameters'')])]), w)
             else
               (case call_isAtlassianTool toolName of
                  Inl e \<Rightarrow> (Inl e, w)
                | Inr atl \<Rightarrow>
                    forwardRequest net (if atl then atlassianServerUrl this else existingServerUrl this) message w))
          else
            (case forwardRequest net (existingServerUrl this) message w of
               (Inl e, w') \<Rightarrow> (Inl e, w')
             | (Inr existingResponse, w') \<Rightarrow>
                 (case getprop existingResponse ''error'' of
                    Inl e \<Rightarrow> (Inl e, w')
                  | Inr err \<Rightarrow>
                      if \<not> truthy err then (Inr existingResponse, w')
                      else forwardRequest net (atlassianServerUrl this) message w')))"

section \<open>The HTTP entry point\<close>

text \<open>
  Of the inbound request the handler reads the method, the path of its URL and, on a POST,
  \<open>request.json()\<close>, which gives a value or throws. A response body is nothing, a text, or
  the text \<open>JSON.stringify(v)\<close>, kept as the value \<open>v\<close> it serialises. A response built
  without a status has status 200. \<open>now\<close> is \<open>new Date().toISOString()\<close>.
\<close>

record Request =
  req_method :: string
  pathname :: string
  req_json :: "thrown + jsval"

datatype body = NoBody | Text string | JSON_stringify jsval

record Response =
  resp_status :: nat
  headers :: "(string \<times> string) list"
  resp_body :: body

definition nl :: string where
  "nl = [CHR 0x0A]"

definition default_text :: "Env \<Rightarrow> string" where
  "default_text env =
     nl @ ''MCP Aggregator Server'' @ nl @ nl @
     ''This server aggregates multiple MCP servers:'' @ nl @
     ''- Existing Server: '' @ or_default (EXISTING_MCP_SERVER_URL env) existing_default @ nl @
     ''- Atlassian Server: '' @ or_default (ATLASSIAN_MCP_SERVER_URL env) atlassian_default @ nl @ nl @
     ''Endpoints:'' @ nl @
     ''- POST / - MCP JSON-RPC requests'' @ nl @
     ''- GET /sse - SSE endpoint for MCP clients  '' @ nl @
     ''- GET /status - Server status and configuration'' @ nl @
     ''    ''"

definition json_headers :: "(string \<times> string) list" where
  "json_headers = [(''Content-Type'', ''application/json''), (''Access-Control-Allow-Origin'', ''*'')]"

definition text_headers :: "(string \<times> string) list" where
  "text_headers = [(''Content-Type'', ''text/plain''), (''Access-Control-Allow-Origin'', ''*'')]"

definition parse_error_response :: Response where
  "parse_error_response =
     \<lparr> resp_status = 400,
       headers = json_headers,
       resp_body = JSON_stringify
         (JObj [(''jsonrpc'', JStr ''2.0''),
                (''error'', JObj [(''code'', JNum (- 32700)), (''message'', JStr ''Parse error'')])]) \<rparr>"

definition fetch :: "network \<Rightarrow> string \<Rightarrow> Request \<Rightarrow> Env \<Rightarrow> world \<Rightarrow> Response \<times> world" where
  "fetch net now request env w =
     (if req_method request = ''OPTIONS'' then
        (\<lparr> resp_status = 200,
            headers = [(''Access-Control-Allow-Origin'', ''*''),
                       (''Access-Control-Allow-Methods'', ''GET, POST, OPTIONS''),
                       (''Access-Control-Allow-Headers'', ''Content-Type'')],
            resp_body = NoBody \<rparr>, w)
      else if pathname request = ''/sse'' \<and> req_method request = ''GET'' then
        (\<lparr> resp_status = 200, headers = text_headers,
            resp_body = Text ''SSE endpoint for MCP aggregator'' \<rparr>, w)
      else if pathname request = ''/status'' \<and> req_method request = ''GET'' then
        (\<lparr> resp_status = 200, headers = json_headers,
            resp_body = JSON_stringify
              (JObj [(''status'', JStr ''active''),
                     (''servers'',
                        JObj [(''existing'', JStr (or_default (EXISTING_MCP_SERVER_URL env) existing_default)),
                              (''atlassian'', JStr (or_default (ATLASSIAN_MCP_SERVER_URL env) atlassian_default))]),
                     (''timestamp'', JStr now)]) \<rparr>, w)
      else if req_method request = ''POST'' then
        (case req_json request of
           Inl e \<Rightarrow> (parse_error_response, w)
         | Inr message \<Rightarrow>
             (case handleRequest (new_McpAggregator env) net message w of
                (Inl e, w') \<Rightarrow> (parse_error_response, w')
              | (Inr response, w') \<Rightarrow>
                  (\<lparr> resp_status = 200, headers = json_headers,
                      resp_body = JSON_stringify response \<rparr>, w')))
      else
        (\<lparr> resp_status = 200, headers = text_headers, resp_body = Text (default_text env) \<rparr>, w))"

section \<open>Notions used in the statements\<close>

text \<open>
  The words of the specification that are not functions of the program. A transport failure
  is a rejected call (network error), an answer whose \<open>ok\<close> is false (non-2xx status) or an
  answer whose body does not parse; \<open>transport_failure\<close> gives the text of its cause, and
  \<open>None\<close> on an answer that is \<open>ok\<close> and parses.
\<close>

definition transport_failure :: "outcome \<Rightarrow> string option" where
  "transport_failure out =
     (case out of
        Rejected (JsError m) \<Rightarrow> Some m
      | Rejected NonError \<Rightarrow> Some ''Unknown error''
      | Responded r \<Rightarrow>
          if \<not> ok r then Some (''Server responded with '' @ show_nat (status r) @ '': '' @ statusText r)
          else (case json r of
                  Inl (JsError m) \<Rightarrow> Some m
                | Inl NonError \<Rightarrow> Some ''Unknown error''
                | Inr v \<Rightarrow> None))"

definition error_code :: "jsval \<Rightarrow> jsval" where
  "error_code r = optchain (optchain r ''error'') ''code''"

definition error_message :: "jsval \<Rightarrow> jsval" where
  "error_message r = optchain (optchain r ''error'') ''message''"

text \<open>An envelope is well formed when it says \<open>jsonrpc: '2.0'\<close> and has a result or an error field.\<close>

definition has_field :: "jsval \<Rightarrow> string \<Rightarrow> bool" where
  "has_field v k = (case v of JObj kvs \<Rightarrow> map_of kvs k \<noteq> None | _ \<Rightarrow> False)"

definition well_formed_envelope :: "jsval \<Rightarrow> bool" where
  "well_formed_envelope r =
     (optchain r ''jsonrpc'' = JStr ''2.0'' \<and> (has_field r ''result'' \<or> has_field r ''error''))"

text \<open>
  What one returned backend answer adds to the merged list in \<open>getAllTools\<close>: the elements of
  an array under \<open>result.tools\<close>, the characters of a string there, nothing otherwise.
\<close>

definition contribution :: "jsval \<Rightarrow> jsval list" where
  "contribution response =
     (case optchain (optchain response ''result'') ''tools'' of
        JArr xs \<Rightarrow> xs
      | JStr s \<Rightarrow> map (\<lambda>c. JStr [c]) s
      | _ \<Rightarrow> [])"

section \<open>Concrete runs\<close>

text \<open>The inputs at which the theorems below are instantiated.\<close>

definition w0 :: world where
  "w0 = \<lparr> calls = [], console = [] \<rparr>"

definition env0 :: Env where
  "env0 = \<lparr> EXISTING_MCP_SERVER_URL = None, ATLASSIAN_MCP_SERVER_URL = None \<rparr>"

definition answer :: "jsval \<Rightarrow> outcome" where
  "answer v = Responded \<lparr> ok = True, status = 200, statusText = ''OK'', json = Inr v \<rparr>"

text \<open>Every backend answers 503.\<close>

definition down :: network where
  "down h u m =
     Responded \<lparr> ok = False, status = 503, statusText = ''Service Unavailable'',
                 json = Inl (JsError ''Unexpected end of JSON input'') \<rparr>"

text \<open>The existing backend sends a string where the list of tools should be.\<close>

definition jira_tool :: jsval where
  "jira_tool = JObj [(''name'', JStr ''jira_search''), (''description'', JStr ''Search Jira issues with JQL''),
                     (''inputSchema'', JObj [(''type'', JStr ''object'')])]"

definition garbled :: network where
  "garbled h u m =
     (if u = existing_default
      then answer (JObj [(''jsonrpc'', JStr ''2.0''), (''id'', JNum 1), (''result'', JObj [(''tools'', JStr ''ab'')])])
      else answer (JObj [(''jsonrpc'', JStr ''2.0''), (''id'', JNum 2), (''result'', JObj [(''tools'', JArr [jira_tool])])]))"

text \<open>Every backend answers \<open>Method not found\<close>, as an error envelope of its own.\<close>

definition method_not_found :: jsval where
  "method_not_found =
     JObj [(''jsonrpc'', JStr ''2.0''), (''id'', JNum 12),
           (''error'', JObj [(''code'', JNum (- 32601)), (''message'', JStr ''Method not found'')])]"

definition refusing :: network where
  "refusing h u m = answer method_not_found"

text \<open>
  The existing backend answers in the style of JSON-RPC 1.0, with a result and
  \<open>error: null\<close>; the Atlassian backend answers \<open>Method not found\<close>.
\<close>

definition pong :: jsval where
  "pong = JObj [(''result'', JStr ''pong''), (''error'', JNull), (''id'', JNum 7)]"

definition legacy :: network where
  "legacy h u m = (if u = existing_default then answer pong else answer method_not_found)"

text \<open>The existing backend refuses, the Atlassian backend answers.\<close>

definition handled :: jsval where
  "handled = JObj [(''jsonrpc'', JStr ''2.0''), (''id'', JNum 7), (''result'', JObj [])]"

definition second_answers :: network where
  "second_answers h u m = (if u = existing_default then answer method_not_found else answer handled)"

text \<open>Every backend answers 200 with the body \<open>{}\<close>.\<close>

definition bare :: network where
  "bare h u m = answer (JObj [])"

text \<open>The inbound messages.\<close>

definition ping :: "(string \<times> jsval) list" where
  "ping = [(''jsonrpc'', JStr ''2.0''), (''id'', JNum 7), (''method'', JStr ''ping'')]"

definition list_msg :: jsval where
  "list_msg = JObj [(''jsonrpc'', JStr ''2.0''), (''id'', JStr ''abc''), (''method'', JStr ''tools/list'')]"

definition jira_call :: jsval where
  "jira_call =
     JObj [(''jsonrpc'', JStr ''2.0''), (''id'', JNum 11), (''method'', JStr ''tools/call''),
           (''params'', JObj [(''name'', JStr ''jira_search''),
                              (''arguments'', JObj [(''jql'', JStr ''project = X'')])])]"

definition add_call :: jsval where
  "add_call =
     JObj [(''jsonrpc'', JStr ''2.0''), (''id'', JNum 12), (''method'', JStr ''tools/call''),
           (''params'', JObj [(''name'', JStr ''add''),
                              (''arguments'', JObj [(''a'', JNum 1), (''b'', JNum 2)])])]"

definition nameless_call :: jsval where
  "nameless_call =
     JObj [(''jsonrpc'', JStr ''2.0''), (''id'', JNum 5), (''method'', JStr ''tools/call''),
           (''params'', JObj [(''arguments'', JObj [])])]"

definition empty_name_call :: jsval where
  "empty_name_call =
     JObj [(''jsonrpc'', JStr ''2.0''), (''id'', JNum 6), (''method'', JStr ''tools/call''),
           (''params'', JObj [(''name'', JStr ''''), (''arguments'', JObj [])])]"

definition blank_call :: jsval where
  "blank_call =
     JObj [(''jsonrpc'', JStr ''2.0''), (''id'', JNum 3), (''method'', JStr ''tools/call''),
           (''params'', JObj [(''name'', JStr '''')])]"

definition numeric_name_call :: jsval where
  "numeric_name_call =
     JObj [(''jsonrpc'', JStr ''2.0''), (''id'', JNum 1), (''method'', JStr ''tools/call''),
           (''params'', JObj [(''name'', JNum 5)])]"

definition post :: "jsval \<Rightarrow> Request" where
  "post v = \<lparr> req_method = ''POST'', pathname = ''/'', req_json = Inr v \<rparr>"

section \<open>Supporting lemmas\<close>

subsection \<open>forwardRequest\<close>

lemma forwardRequest_snd:
  "snd (forwardRequest net url m w) = w\<lparr>calls := calls w @ [(url, m)]\<rparr>"
  by (simp add: forwardRequest_def Let_def split: sum.splits)

lemma forwardRequest_fst_calls:
  "calls w = calls w' \<Longrightarrow> fst (forwardRequest net url m w) = fst (forwardRequest net url m w')"
  by (simp add: forwardRequest_def Let_def split: sum.splits)

lemma attempt_failure:
  "transport_failure out = Some c \<Longrightarrow> \<exists>e. attempt out = Inl e \<and> caught_message e = c"
  by (auto simp add: attempt_def transport_failure_def caught_message_def
        split: outcome.splits thrown.splits if_splits sum.splits)

lemma attempt_success:
  "transport_failure out = None \<Longrightarrow>
     \<exists>b. out = Responded b \<and> ok b \<and> attempt out = json b \<and> (\<exists>v. json b = Inr v)"
  by (auto simp add: attempt_def transport_failure_def
        split: outcome.splits thrown.splits if_splits sum.splits)

lemma forwardRequest_failure:
  assumes "transport_failure (net (calls w) url (JObj kvs)) = Some c"
  shows "fst (forwardRequest net url (JObj kvs) w) =
           Inr (JObj [(''jsonrpc'', JStr ''2.0''),
                      (''id'', optchain (JObj kvs) ''id''),
                      (''error'', JObj [(''code'', JNum (- 32603)),
                                        (''message'', JStr (''Failed to contact server: '' @ c))])])"
  using attempt_failure [OF assms]
  by (auto simp add: forwardRequest_def Let_def optchain_def)

lemma forwardRequest_success:
  assumes "transport_failure (net (calls w) url m) = None"
  shows "\<exists>b v. net (calls w) url m = Responded b \<and> ok b \<and> json b = Inr v \<and>
           fst (forwardRequest net url m w) = Inr v"
  using attempt_success [OF assms]
  by (auto simp add: forwardRequest_def Let_def)

subsection \<open>isAtlassianTool and the routed call\<close>

lemma isAtlassianTool_iff:
  "isAtlassianTool n \<longleftrightarrow> prefix ''jira_'' n \<or> prefix ''confluence_'' n \<or> prefix ''atlassian_'' n"
  by (simp add: isAtlassianTool_def atlassianPrefixes_def startsWith_def)

lemma handleRequest_tools_call:
  assumes "getprop message ''method'' = Inr (JStr ''tools/call'')"
      and "optchain (optchain message ''params'') ''name'' = JStr n"
      and "n \<noteq> []"
  shows "handleRequest this net message w =
           forwardRequest net (if isAtlassianTool n then atlassianServerUrl this else existingServerUrl this) message w"
  using assms by (simp add: handleRequest_def Let_def)

lemma handleRequest_missing_name:
  assumes "getprop message ''method'' = Inr (JStr ''tools/call'')"
      and "\<not> truthy (optchain (optchain message ''params'') ''name'')"
  shows "handleRequest this net message w =
           (Inr (JObj [(''jsonrpc'', JStr ''2.0''),
                       (''id'', optchain message ''id''),
                       (''error'', JObj [(''code'', JNum (- 32602)),
                                         (''message'', JStr ''Missing tool name in parameters'')])]), w)"
  using assms by (simp add: handleRequest_def Let_def)

subsection \<open>getAllTools\<close>

lemma tools_list_request_returns:
  "\<exists>r. fst (forwardRequest net url (tools_list_request n) w) = Inr r"
  by (auto simp add: forwardRequest_def Let_def tools_list_request_def split: sum.splits)

lemma collectTools_calls:
  "calls (snd (collectTools net url n line (ts, w))) = calls w @ [(url, tools_list_request n)]"
proof -
  obtain r w' where f: "forwardRequest net url (tools_list_request n) w = (r, w')"
    by (cases "forwardRequest net url (tools_list_request n) w")
  then have "w' = w\<lparr>calls := calls w @ [(url, tools_list_request n)]\<rparr>"
    using forwardRequest_snd [of net url "tools_list_request n" w] by simp
  with f show ?thesis
    by (simp add: collectTools_def log_error_def split: sum.splits)
qed

text \<open>One \<open>try\<close> block appends the contribution of the answer that \<open>forwardRequest\<close> returned.\<close>

lemma collectTools_returned:
  assumes "fst (forwardRequest net url (tools_list_request n) w) = Inr response"
  shows "fst (collectTools net url n line (ts, w)) = ts @ contribution response"
proof -
  obtain w' where f: "forwardRequest net url (tools_list_request n) w = (Inr response, w')"
    using assms by (cases "forwardRequest net url (tools_list_request n) w") simp
  show ?thesis
  proof (cases response)
    case (JObj kvs)
    then show ?thesis using f
      by (cases "optchain (optchain (JObj kvs) ''result'') ''tools''")
         (auto simp add: collectTools_def contribution_def optchain_def split: sum.splits option.splits)
  qed (use f in \<open>simp_all add: collectTools_def contribution_def optchain_def\<close>)
qed

lemma collectTools_failure:
  assumes "transport_failure (net (calls w) url (tools_list_request n)) = Some c"
  shows "fst (collectTools net url n line (ts, w)) = ts"
proof -
  have "fst (forwardRequest net url (tools_list_request n) w) =
           Inr (JObj [(''jsonrpc'', JStr ''2.0''),
                      (''id'', optchain (tools_list_request n) ''id''),
                      (''error'', JObj [(''code'', JNum (- 32603)),
                                        (''message'', JStr (''Failed to contact server: '' @ c))])])"
    using assms forwardRequest_failure [of net w url _ c] by (simp add: tools_list_request_def)
  from collectTools_returned [OF this] show ?thesis
    by (simp add: contribution_def optchain_def)
qed

lemma getAllTools_calls:
  "calls (snd (getAllTools this net w)) =
     calls w @ [(existingServerUrl this, tools_list_request 1), (atlassianServerUrl this, tools_list_request 2)]"
proof -
  obtain ts w1 where c1:
    "collectTools net (existingServerUrl this) 1 ''Failed to get tools from existing server:'' ([], w) = (ts, w1)"
    by (cases "collectTools net (existingServerUrl this) 1 ''Failed to get tools from existing server:'' ([], w)")
  have "calls w1 = calls w @ [(existingServerUrl this, tools_list_request 1)]"
    using collectTools_calls [of net "existingServerUrl this" 1 "''Failed to get tools from existing server:''" "[]" w] c1
    by simp
  then show ?thesis
    using collectTools_calls [of net "atlassianServerUrl this" 2 "''Failed to get tools from Atlassian server:''" ts w1]
    by (simp add: getAllTools_def c1)
qed

text \<open>
  The merged list is the contribution of the existing backend's answer followed by that of
  the Atlassian backend's answer: with arrays \<open>[a1, a2]\<close> and \<open>[b1]\<close> it is \<open>[a1, a2, b1]\<close>.
\<close>

lemma getAllTools_merge:
  assumes "fst (forwardRequest net (existingServerUrl this) (tools_list_request 1) w) = Inr r1"
      and "fst (forwardRequest net (atlassianServerUrl this) (tools_list_request 2)
                  (w\<lparr>calls := calls w @ [(existingServerUrl this, tools_list_request 1)]\<rparr>)) = Inr r2"
  shows "fst (getAllTools this net w) = contribution r1 @ contribution r2"
proof -
  obtain ts w1 where c1:
    "collectTools net (existingServerUrl this) 1 ''Failed to get tools from existing server:'' ([], w) = (ts, w1)"
    by (cases "collectTools net (existingServerUrl this) 1 ''Failed to get tools from existing server:'' ([], w)")
  have t: "ts = contribution r1"
    using collectTools_returned [OF assms(1), of "''Failed to get tools from existing server:''" "[]"] c1 by simp
  have "calls w1 = calls w @ [(existingServerUrl this, tools_list_request 1)]"
    using collectTools_calls [of net "existingServerUrl this" 1 "''Failed to get tools from existing server:''" "[]" w] c1
    by simp
  then have "fst (forwardRequest net (atlassianServerUrl this) (tools_list_request 2) w1) = Inr r2"
    using forwardRequest_fst_calls [of w1 "w\<lparr>calls := calls w @ [(existingServerUrl this, tools_list_request 1)]\<rparr>"
             net "atlassianServerUrl this" "tools_list_request 2"] assms(2)
    by simp
  from collectTools_returned [OF this] show ?thesis
    by (simp add: getAllTools_def c1 t)
qed

subsection \<open>The fallback chain\<close>

lemma getprop_not_nullish:
  "v \<noteq> JNull \<Longrightarrow> v \<noteq> JUndefined \<Longrightarrow> getprop v k = Inr (optchain v k)"
  by (cases v) (simp_all add: optchain_def)

lemma handleRequest_fallback:
  assumes "getprop message ''method'' = Inr m"
      and "m \<noteq> JStr ''initialize''" and "m \<noteq> JStr ''tools/list''" and "m \<noteq> JStr ''tools/call''"
      and "forwardRequest net (existingServerUrl this) message w = (Inr existingResponse, w')"
      and "existingResponse \<noteq> JNull" and "existingResponse \<noteq> JUndefined"
  shows "handleRequest this net message w =
           (if truthy (optchain existingResponse ''error'')
            then forwardRequest net (atlassianServerUrl this) message w'
            else (Inr existingResponse, w'))"
  using assms by (simp add: handleRequest_def getprop_not_nullish)

text \<open>
  What \<open>forwardRequest\<close> returns for an object: on a transport failure an envelope of its own
  making, with an error; otherwise the parsed body of the answer, whatever it is.
\<close>

lemma forwardRequest_obj_cases:
  "\<exists>r. fst (forwardRequest net url (JObj kvs) w) = Inr r \<and>
     ((transport_failure (net (calls w) url (JObj kvs)) \<noteq> None \<and> well_formed_envelope r \<and>
       truthy (optchain r ''error'')) \<or>
      (transport_failure (net (calls w) url (JObj kvs)) = None \<and>
       (\<exists>b. net (calls w) url (JObj kvs) = Responded b \<and> ok b \<and> json b = Inr r)))"
proof (cases "transport_failure (net (calls w) url (JObj kvs))")
  case None
  then have "\<exists>b v. net (calls w) url (JObj kvs) = Responded b \<and> ok b \<and> json b = Inr v \<and>
           fst (forwardRequest net url (JObj kvs) w) = Inr v"
    by (rule forwardRequest_success [where net = net and w = w])
  then show ?thesis
    using None by auto
next
  case (Some c)
  then have "fst (forwardRequest net url (JObj kvs) w) =
           Inr (JObj [(''jsonrpc'', JStr ''2.0''),
                      (''id'', optchain (JObj kvs) ''id''),
                      (''error'', JObj [(''code'', JNum (- 32603)),
                                        (''message'', JStr (''Failed to contact server: '' @ c))])])"
    by (rule forwardRequest_failure [where net = net and w = w])
  then show ?thesis
    using Some by (simp add: well_formed_envelope_def has_field_def optchain_def)
qed

subsection \<open>The HTTP entry point\<close>

text \<open>A POST whose body does not parse gets the 400 parse-error response and nothing is called.\<close>

lemma fetch_unparseable:
  assumes "req_method request = ''POST''" and "req_json request = Inl e"
  shows "fetch net now request env w = (parse_error_response, w)"
  using assms by (simp add: fetch_def)

text \<open>The status of the answer to a POST is 400 exactly when the parse or \<open>handleRequest\<close> throws.\<close>

lemma fetch_post_status:
  assumes "req_method request = ''POST''"
  shows "resp_status (fst (fetch net now request env w)) =
           (if (\<exists>e. req_json request = Inl e) \<or>
               (\<exists>message e. req_json request = Inr message \<and>
                    fst (handleRequest (new_McpAggregator env) net message w) = Inl e)
            then 400 else 200)"
  using assms
  by (auto simp add: fetch_def parse_error_response_def split: sum.splits prod.splits)

section \<open>The backend client\<close>

text \<open>
  Claim C1. For every envelope (an object) and every address, \<open>forwardRequest\<close> returns and
  does not throw. On a transport failure (the call is rejected, the answer is not \<open>ok\<close>, or
  its body does not parse) what it returns has the id of the envelope it was given, the
  error code -32603 and the message \<open>Failed to contact server: \<close> followed by the cause: the
  message of the caught error, \<open>Server responded with <status>: <statusText>\<close> on an answer
  that is not \<open>ok\<close>, and \<open>Unknown error\<close> when what was thrown is not an \<open>Error\<close>.
\<close>

theorem forwardRequest_never_raises:
  "\<exists>r. fst (forwardRequest net url (JObj kvs) w) = Inr r \<and>
        (\<forall>cause. transport_failure (net (calls w) url (JObj kvs)) = Some cause \<longrightarrow>
           optchain r ''id'' = optchain (JObj kvs) ''id'' \<and>
           error_code r = JNum (- 32603) \<and>
           error_message r = JStr (''Failed to contact server: '' @ cause))"
  by (auto simp add: forwardRequest_def Let_def attempt_def transport_failure_def caught_message_def
        error_code_def error_message_def optchain_def
        split: sum.splits outcome.splits thrown.splits if_splits)

text \<open>A backend that answers 503 to a \<open>ping\<close> with id 7.\<close>

theorem forwardRequest_never_raises_witness:
  "transport_failure (down (calls w0) ''https://b.example'' (JObj ping)) =
     Some ''Server responded with 503: Service Unavailable'' \<and>
   fst (forwardRequest down ''https://b.example'' (JObj ping) w0) =
     Inr (JObj [(''jsonrpc'', JStr ''2.0''), (''id'', JNum 7),
                (''error'', JObj [(''code'', JNum (- 32603)),
                                  (''message'', JStr ''Failed to contact server: Server responded with 503: Service Unavailable'')])])"
  using forwardRequest_never_raises [of down "''https://b.example''" ping w0]
  by (simp add: forwardRequest_def Let_def attempt_def transport_failure_def caught_message_def
        down_def ping_def w0_def show_nat.simps digit_def optchain_def)

section \<open>The tool classifier\<close>

text \<open>
  Claim C2. \<open>isAtlassianTool\<close> is a total function of the tool name: it holds exactly when the
  name starts with \<open>jira_\<close>, \<open>confluence_\<close> or \<open>atlassian_\<close>. A \<open>tools/call\<close> with a non-empty
  name makes exactly one outbound call, to the Atlassian address when the name has one of
  the prefixes and to the existing address otherwise. In particular a \<open>tools/call\<close> with
  \<open>params.name = "jira_search"\<close> is one \<open>forwardRequest\<close> to the Atlassian address and nothing
  else.
\<close>

theorem tool_classification:
  "(isAtlassianTool n \<longleftrightarrow> prefix ''jira_'' n \<or> prefix ''confluence_'' n \<or> prefix ''atlassian_'' n) \<and>
   (getprop message ''method'' = Inr (JStr ''tools/call'') \<and>
    optchain (optchain message ''params'') ''name'' = JStr n \<and> n \<noteq> [] \<longrightarrow>
      calls (snd (handleRequest this net message w)) =
        calls w @ [(if prefix ''jira_'' n \<or> prefix ''confluence_'' n \<or> prefix ''atlassian_'' n
                    then atlassianServerUrl this else existingServerUrl this, message)]) \<and>
   (getprop message ''method'' = Inr (JStr ''tools/call'') \<and>
    optchain (optchain message ''params'') ''name'' = JStr ''jira_search'' \<longrightarrow>
      handleRequest this net message w = forwardRequest net (atlassianServerUrl this) message w \<and>
      calls (snd (handleRequest this net message w)) = calls w @ [(atlassianServerUrl this, message)])"
proof (intro conjI impI)
  show "isAtlassianTool n \<longleftrightarrow> prefix ''jira_'' n \<or> prefix ''confluence_'' n \<or> prefix ''atlassian_'' n"
    by (rule isAtlassianTool_iff)
next
  assume "getprop message ''method'' = Inr (JStr ''tools/call'') \<and>
    optchain (optchain message ''params'') ''name'' = JStr n \<and> n \<noteq> []"
  then have "handleRequest this net message w =
      forwardRequest net (if isAtlassianTool n then atlassianServerUrl this else existingServerUrl this) message w"
    by (simp add: handleRequest_tools_call)
  then show "calls (snd (handleRequest this net message w)) =
        calls w @ [(if prefix ''jira_'' n \<or> prefix ''confluence_'' n \<or> prefix ''atlassian_'' n
                    then atlassianServerUrl this else existingServerUrl this, message)]"
    by (simp add: forwardRequest_snd isAtlassianTool_iff)
next
  assume a: "getprop message ''method'' = Inr (JStr ''tools/call'') \<and>
    optchain (optchain message ''params'') ''name'' = JStr ''jira_search''"
  have j: "isAtlassianTool ''jira_search''"
    by (simp add: isAtlassianTool_iff)
  from a have "handleRequest this net message w =
      forwardRequest net (if isAtlassianTool ''jira_search'' then atlassianServerUrl this
                          else existingServerUrl this) message w"
    by (intro handleRequest_tools_call) simp_all
  with j show h: "handleRequest this net message w = forwardRequest net (atlassianServerUrl this) message w"
    by simp
  then show "calls (snd (handleRequest this net message w)) = calls w @ [(atlassianServerUrl this, message)]"
    by (simp add: forwardRequest_snd)
qed

text \<open>
  \<open>jira_search\<close> goes to the Atlassian address and \<open>add\<close> to the existing one, with the
  addresses of the default configuration.
\<close>

theorem tool_classification_witness:
  "getprop jira_call ''method'' = Inr (JStr ''tools/call'') \<and>
   optchain (optchain jira_call ''params'') ''name'' = JStr ''jira_search'' \<and>
   calls (snd (handleRequest (new_McpAggregator env0) down jira_call w0)) =
     [(''https://atlassian-mcp-server.gladden4work.workers.dev'', jira_call)] \<and>
   getprop add_call ''method'' = Inr (JStr ''tools/call'') \<and>
   optchain (optchain add_call ''params'') ''name'' = JStr ''add'' \<and>
   calls (snd (handleRequest (new_McpAggregator env0) down add_call w0)) =
     [(''https://remote-mcp-server-authless.gladden4work.workers.dev'', add_call)]"
  using tool_classification [of "''jira_search''" jira_call "new_McpAggregator env0" down w0]
        tool_classification [of "''add''" add_call "new_McpAggregator env0" down w0]
  by (simp add: jira_call_def add_call_def optchain_def new_McpAggregator_def env0_def or_default_def
        existing_default_def atlassian_default_def w0_def forwardRequest_snd)

section \<open>The merged list of tools\<close>

text \<open>
  Claim C3, at an answer that has no array under \<open>result.tools\<close>. The existing backend answers
  \<open>{"jsonrpc":"2.0","id":1,"result":{"tools":"ab"}}\<close> and the Atlassian backend answers with
  one tool. The string passes the test \<open>if (existingResponse.result?.tools)\<close> and is spread
  into \<open>tools.push\<close>: the merged list starts with the strings \<open>a\<close> and \<open>b\<close>, and nothing is
  logged.
\<close>

theorem tools_string_is_spread:
  "handleRequest (new_McpAggregator env0) garbled list_msg w0 =
     (Inr (JObj [(''jsonrpc'', JStr ''2.0''), (''id'', JStr ''abc''),
                 (''result'', JObj [(''tools'', JArr [JStr ''a'', JStr ''b'', jira_tool])])]),
      \<lparr> calls = [(existing_default, tools_list_request 1), (atlassian_default, tools_list_request 2)],
        console = [] \<rparr>)"
  by (simp add: handleRequest_def list_msg_def getAllTools_def collectTools_def forwardRequest_def
        attempt_def garbled_def answer_def new_McpAggregator_def env0_def or_default_def w0_def
        optchain_def Let_def existing_default_def atlassian_default_def)

text \<open>
  Claim C4. For every message whose method is \<open>tools/list\<close>, whatever the backends do,
  \<open>handleRequest\<close> returns the envelope \<open>{jsonrpc: '2.0', id, result: {tools}}\<close> with the id of
  the inbound message and no error field. The two outbound requests are the synthesized
  ones with ids 1 and 2; of what the backends answer, only the contributions to \<open>tools\<close>
  reach the response, so the ids of the answers are dropped. When both calls are transport
  failures the list is empty.
\<close>

theorem tools_list_always_result:
  assumes "getprop message ''method'' = Inr (JStr ''tools/list'')"
  shows "\<exists>ts. fst (handleRequest this net message w) =
                 Inr (JObj [(''jsonrpc'', JStr ''2.0''),
                            (''id'', optchain message ''id''),
                            (''result'', JObj [(''tools'', JArr ts)])]) \<and>
              calls (snd (handleRequest this net message w)) =
                 calls w @ [(existingServerUrl this, tools_list_request 1),
                            (atlassianServerUrl this, tools_list_request 2)] \<and>
              (\<exists>r1 r2.
                 fst (forwardRequest net (existingServerUrl this) (tools_list_request 1) w) = Inr r1 \<and>
                 fst (forwardRequest net (atlassianServerUrl this) (tools_list_request 2)
                        (w\<lparr>calls := calls w @ [(existingServerUrl this, tools_list_request 1)]\<rparr>)) = Inr r2 \<and>
                 ts = contribution r1 @ contribution r2) \<and>
              (transport_failure (net (calls w) (existingServerUrl this) (tools_list_request 1)) \<noteq> None \<and>
               transport_failure (net (calls w @ [(existingServerUrl this, tools_list_request 1)])
                                    (atlassianServerUrl this) (tools_list_request 2)) \<noteq> None
               \<longrightarrow> ts = [])"
proof -
  obtain ts w' where g: "getAllTools this net w = (ts, w')"
    by (cases "getAllTools this net w")
  have h: "handleRequest this net message w =
             (Inr (JObj [(''jsonrpc'', JStr ''2.0''),
                         (''id'', optchain message ''id''),
                         (''result'', JObj [(''tools'', JArr ts)])]), w')"
    using assms g by (simp add: handleRequest_def)
  have c: "calls w' = calls w @ [(existingServerUrl this, tools_list_request 1),
                            (atlassianServerUrl this, tools_list_request 2)]"
    using getAllTools_calls [of this net w] g by simp
  obtain r1 where r1: "fst (forwardRequest net (existingServerUrl this) (tools_list_request 1) w) = Inr r1"
    using tools_list_request_returns by blast
  obtain r2 where r2: "fst (forwardRequest net (atlassianServerUrl this) (tools_list_request 2)
                        (w\<lparr>calls := calls w @ [(existingServerUrl this, tools_list_request 1)]\<rparr>)) = Inr r2"
    using tools_list_request_returns by blast
  have m: "ts = contribution r1 @ contribution r2"
    using getAllTools_merge [OF r1 r2] g by simp
  have e: "ts = []"
    if f1: "transport_failure (net (calls w) (existingServerUrl this) (tools_list_request 1)) \<noteq> None"
    and f2: "transport_failure (net (calls w @ [(existingServerUrl this, tools_list_request 1)])
                                    (atlassianServerUrl this) (tools_list_request 2)) \<noteq> None"
  proof -
    obtain t1 w1 where c1:
      "collectTools net (existingServerUrl this) 1 ''Failed to get tools from existing server:'' ([], w) = (t1, w1)"
      by (cases "collectTools net (existingServerUrl this) 1 ''Failed to get tools from existing server:'' ([], w)")
    from f1 obtain c where
      "transport_failure (net (calls w) (existingServerUrl this) (tools_list_request 1)) = Some c"
      by blast
    then have "fst (collectTools net (existingServerUrl this) 1
                      ''Failed to get tools from existing server:'' ([], w)) = []"
      by (rule collectTools_failure [where net = net and w = w])
    with c1 have t1: "t1 = []" by simp
    have cw1: "calls w1 = calls w @ [(existingServerUrl this, tools_list_request 1)]"
      using collectTools_calls [of net "existingServerUrl this" 1 "''Failed to get tools from existing server:''" "[]" w] c1
      by simp
    with f2 obtain c' where
      "transport_failure (net (calls w1) (atlassianServerUrl this) (tools_list_request 2)) = Some c'"
      by auto
    then have "fst (collectTools net (atlassianServerUrl this) 2
                      ''Failed to get tools from Atlassian server:'' ([], w1)) = []"
      by (rule collectTools_failure [where net = net and w = w1])
    then show ?thesis using g c1 t1 by (simp add: getAllTools_def)
  qed
  show ?thesis
    using h c r1 r2 m e by auto
qed

text \<open>With every backend down the caller with id \<open>abc\<close> gets an empty list under that id.\<close>

theorem tools_list_always_result_witness:
  "getprop list_msg ''method'' = Inr (JStr ''tools/list'') \<and>
   transport_failure (down [] existing_default (tools_list_request 1)) \<noteq> None \<and>
   transport_failure (down [(existing_default, tools_list_request 1)] atlassian_default (tools_list_request 2)) \<noteq> None \<and>
   fst (handleRequest (new_McpAggregator env0) down list_msg w0) =
     Inr (JObj [(''jsonrpc'', JStr ''2.0''), (''id'', JStr ''abc''),
                (''result'', JObj [(''tools'', JArr [])])])"
  using tools_list_always_result [of list_msg "new_McpAggregator env0" down w0]
  by (auto simp add: list_msg_def new_McpAggregator_def env0_def or_default_def w0_def optchain_def
        transport_failure_def down_def)

section \<open>Routed calls\<close>

text \<open>
  Claim C5. For every \<open>tools/call\<close> message whose params carry no name (\<open>message.params?.name\<close>
  is undefined: no params, or params without a \<open>name\<close>), \<open>handleRequest\<close> returns the error
  envelope with code -32602, the message \<open>Missing tool name in parameters\<close> and the id of
  the inbound message, and leaves the world as it was: \<open>forwardRequest\<close> is not invoked.
\<close>

theorem missing_name_rejected:
  assumes "getprop message ''method'' = Inr (JStr ''tools/call'')"
      and "optchain (optchain message ''params'') ''name'' = JUndefined"
  shows "handleRequest this net message w =
           (Inr (JObj [(''jsonrpc'', JStr ''2.0''),
                       (''id'', optchain message ''id''),
                       (''error'', JObj [(''code'', JNum (- 32602)),
                                         (''message'', JStr ''Missing tool name in parameters'')])]), w)"
  using assms by (simp add: handleRequest_missing_name)

theorem missing_name_rejected_witness:
  "getprop nameless_call ''method'' = Inr (JStr ''tools/call'') \<and>
   optchain (optchain nameless_call ''params'') ''name'' = JUndefined \<and>
   handleRequest (new_McpAggregator env0) refusing nameless_call w0 =
     (Inr (JObj [(''jsonrpc'', JStr ''2.0''), (''id'', JNum 5),
                 (''error'', JObj [(''code'', JNum (- 32602)),
                                   (''message'', JStr ''Missing tool name in parameters'')])]),
      \<lparr> calls = [], console = [] \<rparr>)"
  using missing_name_rejected [of nameless_call "new_McpAggregator env0" refusing w0]
  by (simp add: nameless_call_def optchain_def w0_def)

text \<open>
  Claim C10. A \<open>tools/call\<close> message whose \<open>params.name\<close> is there and is the empty string gets
  the same answer as one without a name: the error envelope with code -32602, and no
  backend is called. The test is \<open>!toolName\<close>, and the empty string is falsy.
\<close>

theorem empty_name_rejected:
  assumes "getprop message ''method'' = Inr (JStr ''tools/call'')"
      and "optchain (optchain message ''params'') ''name'' = JStr ''''"
  shows "handleRequest this net message w =
           (Inr (JObj [(''jsonrpc'', JStr ''2.0''),
                       (''id'', optchain message ''id''),
                       (''error'', JObj [(''code'', JNum (- 32602)),
                                         (''message'', JStr ''Missing tool name in parameters'')])]), w)"
  using assms by (simp add: handleRequest_missing_name)

theorem empty_name_rejected_witness:
  "getprop empty_name_call ''method'' = Inr (JStr ''tools/call'') \<and>
   optchain (optchain empty_name_call ''params'') ''name'' = JStr '''' \<and>
   has_field (optchain empty_name_call ''params'') ''name'' \<and>
   handleRequest (new_McpAggregator env0) refusing empty_name_call w0 =
     (Inr (JObj [(''jsonrpc'', JStr ''2.0''), (''id'', JNum 6),
                 (''error'', JObj [(''code'', JNum (- 32602)),
                                   (''message'', JStr ''Missing tool name in parameters'')])]),
      \<lparr> calls = [], console = [] \<rparr>)"
  using empty_name_rejected [of empty_name_call "new_McpAggregator env0" refusing w0]
  by (simp add: empty_name_call_def optchain_def w0_def has_field_def)

text \<open>
  Claim C6 as it is written fails: the message
  \<open>{"jsonrpc":"2.0","id":3,"method":"tools/call","params":{"name":""}}\<close> has a tool name in
  its params, and it is forwarded to neither backend; no call is made at all.
\<close>

theorem present_name_not_forwarded:
  "getprop blank_call ''method'' = Inr (JStr ''tools/call'') \<and>
   has_field (optchain blank_call ''params'') ''name'' \<and>
   calls (snd (handleRequest (new_McpAggregator env0) refusing blank_call w0)) = [] \<and>
   fst (handleRequest (new_McpAggregator env0) refusing blank_call w0) \<noteq>
     fst (forwardRequest refusing (existingServerUrl (new_McpAggregator env0)) blank_call w0) \<and>
   fst (handleRequest (new_McpAggregator env0) refusing blank_call w0) \<noteq>
     fst (forwardRequest refusing (atlassianServerUrl (new_McpAggregator env0)) blank_call w0)"
  by (simp add: handleRequest_def forwardRequest_def attempt_def blank_call_def optchain_def has_field_def
        refusing_def answer_def method_not_found_def w0_def Let_def)

text \<open>
  Claim C6, amended. For every \<open>tools/call\<close> message whose \<open>params.name\<close> is a non-empty
  string, \<open>handleRequest\<close> is one \<open>forwardRequest\<close> of the inbound message itself to the one
  address that \<open>isAtlassianTool\<close> selects, and it returns what that returns: when the backend
  answers, the parsed body of the answer as it is, an error of the backend's included.
\<close>

theorem tools_call_forwarded:
  assumes "getprop message ''method'' = Inr (JStr ''tools/call'')"
      and "optchain (optchain message ''params'') ''name'' = JStr n"
      and "n \<noteq> []"
  shows "\<exists>url. url = (if isAtlassianTool n then atlassianServerUrl this else existingServerUrl this) \<and>
           handleRequest this net message w = forwardRequest net url message w \<and>
           calls (snd (handleRequest this net message w)) = calls w @ [(url, message)] \<and>
           (\<forall>b v. net (calls w) url message = Responded b \<and> ok b \<and> json b = Inr v \<longrightarrow>
                  fst (handleRequest this net message w) = Inr v)"
proof -
  let ?url = "if isAtlassianTool n then atlassianServerUrl this else existingServerUrl this"
  have h: "handleRequest this net message w = forwardRequest net ?url message w"
    using assms by (rule handleRequest_tools_call)
  have v: "fst (forwardRequest net ?url message w) = Inr v"
    if "net (calls w) ?url message = Responded b" "ok b" "json b = Inr v" for b v
    using that by (simp add: forwardRequest_def attempt_def Let_def)
  show ?thesis
    using h v by (simp add: forwardRequest_snd)
qed

text \<open>A call of \<open>add\<close> that the existing backend answers with \<open>Method not found\<close>.\<close>

theorem tools_call_forwarded_witness:
  "getprop add_call ''method'' = Inr (JStr ''tools/call'') \<and>
   optchain (optchain add_call ''params'') ''name'' = JStr ''add'' \<and>
   handleRequest (new_McpAggregator env0) refusing add_call w0 =
     (Inr method_not_found, \<lparr> calls = [(existing_default, add_call)], console = [] \<rparr>)"
  using tools_call_forwarded [of add_call "''add''" "new_McpAggregator env0" refusing w0]
  by (simp add: add_call_def optchain_def w0_def refusing_def answer_def isAtlassianTool_iff
        new_McpAggregator_def env0_def or_default_def forwardRequest_def attempt_def Let_def)

section \<open>The fallback chain\<close>

text \<open>
  Claim C7 as it is written fails: to a \<open>ping\<close> the existing backend answers
  \<open>{"result":"pong","error":null,"id":7}\<close>. The answer carries an error field, so the claim
  sends the message on to the Atlassian backend and returns its answer, \<open>Method not found\<close>.
  The program tests \<open>!existingResponse.error\<close>, \<open>null\<close> is falsy, and it returns the first
  answer after one call.
\<close>

theorem falsy_error_not_retried:
  "getprop (JObj ping) ''method'' = Inr (JStr ''ping'') \<and>
   fst (forwardRequest legacy (existingServerUrl (new_McpAggregator env0)) (JObj ping) w0) = Inr pong \<and>
   has_field pong ''error'' \<and>
   handleRequest (new_McpAggregator env0) legacy (JObj ping) w0 =
     (Inr pong, \<lparr> calls = [(existing_default, JObj ping)], console = [] \<rparr>) \<and>
   fst (forwardRequest legacy (atlassianServerUrl (new_McpAggregator env0)) (JObj ping)
          \<lparr> calls = [(existing_default, JObj ping)], console = [] \<rparr>) = Inr method_not_found \<and>
   pong \<noteq> method_not_found"
  by (simp add: handleRequest_def forwardRequest_def attempt_def ping_def optchain_def has_field_def
        legacy_def answer_def pong_def method_not_found_def w0_def Let_def
        new_McpAggregator_def env0_def or_default_def existing_default_def atlassian_default_def)

text \<open>
  Claim C7, amended. For every message whose method is not \<open>initialize\<close>, \<open>tools/list\<close> or
  \<open>tools/call\<close> (an absent method included), the message is first forwarded to the existing
  backend. When what comes back is not \<open>null\<close> and its \<open>error\<close> is absent or falsy, it is
  returned as it is and that was the only call. When its \<open>error\<close> is truthy, the same message
  is forwarded to the Atlassian backend and what that returns is the answer, after exactly
  those two calls.
\<close>

theorem fallback_chain:
  assumes "getprop message ''method'' = Inr m"
      and "m \<noteq> JStr ''initialize''" and "m \<noteq> JStr ''tools/list''" and "m \<noteq> JStr ''tools/call''"
      and "forwardRequest net (existingServerUrl this) message w = (Inr existingResponse, w')"
      and "existingResponse \<noteq> JNull" and "existingResponse \<noteq> JUndefined"
  shows "(\<not> truthy (optchain existingResponse ''error'') \<longrightarrow>
            handleRequest this net message w = (Inr existingResponse, w') \<and>
            calls (snd (handleRequest this net message w)) = calls w @ [(existingServerUrl this, message)]) \<and>
         (truthy (optchain existingResponse ''error'') \<longrightarrow>
            handleRequest this net message w = forwardRequest net (atlassianServerUrl this) message w' \<and>
            calls (snd (handleRequest this net message w)) =
              calls w @ [(existingServerUrl this, message), (atlassianServerUrl this, message)])"
proof -
  have h: "handleRequest this net message w =
           (if truthy (optchain existingResponse ''error'')
            then forwardRequest net (atlassianServerUrl this) message w'
            else (Inr existingResponse, w'))"
    using assms by (rule handleRequest_fallback)
  have c: "calls w' = calls w @ [(existingServerUrl this, message)]"
    using forwardRequest_snd [of net "existingServerUrl this" message w] assms(5) by simp
  show ?thesis
    using h c by (simp add: forwardRequest_snd)
qed

text \<open>The existing backend answers \<open>Method not found\<close>, the Atlassian backend handles the \<open>ping\<close>.\<close>

theorem fallback_chain_witness:
  "getprop (JObj ping) ''method'' = Inr (JStr ''ping'') \<and>
   forwardRequest second_answers existing_default (JObj ping) w0 =
     (Inr method_not_found, \<lparr> calls = [(existing_default, JObj ping)], console = [] \<rparr>) \<and>
   method_not_found \<noteq> JNull \<and>
   truthy (optchain method_not_found ''error'') \<and>
   handleRequest (new_McpAggregator env0) second_answers (JObj ping) w0 =
     (Inr handled, \<lparr> calls = [(existing_default, JObj ping), (atlassian_default, JObj ping)], console = [] \<rparr>)"
  using fallback_chain [of "JObj ping" "JStr ''ping''" second_answers "new_McpAggregator env0" w0 method_not_found
          "\<lparr> calls = [(existing_default, JObj ping)], console = [] \<rparr>"]
  by (simp add: ping_def second_answers_def answer_def method_not_found_def handled_def optchain_def w0_def
        new_McpAggregator_def env0_def or_default_def existing_default_def atlassian_default_def
        forwardRequest_def attempt_def Let_def)

section \<open>The HTTP entry point and totality\<close>

text \<open>
  Claim C8, at a body that parses. The POST body
  \<open>{"jsonrpc":"2.0","id":1,"method":"tools/call","params":{"name":5}}\<close> is an envelope. The
  name 5 is truthy, \<open>isAtlassianTool(5)\<close> throws a TypeError, the \<open>catch\<close> of the entry point
  takes it, and the answer is HTTP 400 with the parse-error envelope: an error condition
  other than an unparseable body changes the HTTP status.
\<close>

theorem numeric_name_is_parse_error:
  "req_method (post numeric_name_call) = ''POST'' \<and>
   req_json (post numeric_name_call) = Inr numeric_name_call \<and>
   fetch refusing ''2026-01-01T00:00:00.000Z'' (post numeric_name_call) env0 w0 =
     (\<lparr> resp_status = 400,
         headers = [(''Content-Type'', ''application/json''), (''Access-Control-Allow-Origin'', ''*'')],
         resp_body = JSON_stringify
           (JObj [(''jsonrpc'', JStr ''2.0''),
                  (''error'', JObj [(''code'', JNum (- 32700)), (''message'', JStr ''Parse error'')])]) \<rparr>,
      \<lparr> calls = [], console = [] \<rparr>)"
  by (simp add: fetch_def post_def numeric_name_call_def handleRequest_def optchain_def Let_def
        parse_error_response_def json_headers_def w0_def)

text \<open>
  Claim C9 as it is written fails: to a \<open>ping\<close> the existing backend answers 200 with the
  body \<open>{}\<close>. \<open>handleRequest\<close> returns that body as it is; it has no \<open>jsonrpc\<close>, no result and
  no error.
\<close>

theorem backend_body_returned_unchecked:
  "getprop (JObj ping) ''method'' = Inr (JStr ''ping'') \<and>
   handleRequest (new_McpAggregator env0) bare (JObj ping) w0 =
     (Inr (JObj []), \<lparr> calls = [(existing_default, JObj ping)], console = [] \<rparr>) \<and>
   \<not> well_formed_envelope (JObj [])"
  by (simp add: handleRequest_def forwardRequest_def attempt_def ping_def optchain_def has_field_def
        bare_def answer_def w0_def Let_def well_formed_envelope_def
        new_McpAggregator_def env0_def or_default_def existing_default_def atlassian_default_def)

text \<open>
  Claim C9, amended. For every inbound envelope (an object) whose tool name, on a
  \<open>tools/call\<close>, is absent, falsy or a string, and as long as no backend answers with the
  body \<open>null\<close>, \<open>handleRequest\<close> returns and does not throw. What it returns is a well-formed
  envelope (\<open>jsonrpc: '2.0'\<close> with a result or an error field) or the parsed body of a
  backend's answer, passed on as it is. When every backend call is a transport failure, it
  is a well-formed envelope.
\<close>

theorem handleRequest_returns:
  assumes name_ok: "getprop (JObj kvs) ''method'' = Inr (JStr ''tools/call'') \<longrightarrow>
             \<not> truthy (optchain (optchain (JObj kvs) ''params'') ''name'') \<or>
             (\<exists>n. optchain (optchain (JObj kvs) ''params'') ''name'' = JStr n)"
      and no_null: "\<forall>h u m b. net h u m = Responded b \<longrightarrow> json b \<noteq> Inr JNull \<and> json b \<noteq> Inr JUndefined"
  shows "\<exists>r. fst (handleRequest this net (JObj kvs) w) = Inr r \<and>
            (well_formed_envelope r \<or> (\<exists>h u m b. net h u m = Responded b \<and> ok b \<and> json b = Inr r)) \<and>
            ((\<forall>h u m. transport_failure (net h u m) \<noteq> None) \<longrightarrow> well_formed_envelope r)"
proof -
  let ?good = "\<lambda>r. (well_formed_envelope r \<or> (\<exists>h u m b. net h u m = Responded b \<and> ok b \<and> json b = Inr r)) \<and>
            ((\<forall>h u m. transport_failure (net h u m) \<noteq> None) \<longrightarrow> well_formed_envelope r)"
  have fwd: "\<exists>r. fst (forwardRequest net url (JObj kvs) v) = Inr r \<and> ?good r" for url v
    using forwardRequest_obj_cases [of net url kvs v] by blast
  obtain m where m: "getprop (JObj kvs) ''method'' = Inr m" by simp
  consider (init) "m = JStr ''initialize''"
    | (list) "m = JStr ''tools/list''"
    | (call) "m = JStr ''tools/call''"
    | (other) "m \<noteq> JStr ''initialize''" "m \<noteq> JStr ''tools/list''" "m \<noteq> JStr ''tools/call''"
    by blast
  then show ?thesis
  proof cases
    case init
    with m show ?thesis
      by (simp add: handleRequest_def well_formed_envelope_def has_field_def optchain_def)
  next
    case list
    with m show ?thesis
      by (simp add: handleRequest_def well_formed_envelope_def has_field_def optchain_def split: prod.splits)
  next
    case call
    show ?thesis
    proof (cases "truthy (optchain (optchain (JObj kvs) ''params'') ''name'')")
      case False
      with m call have "handleRequest this net (JObj kvs) w =
           (Inr (JObj [(''jsonrpc'', JStr ''2.0''),
                       (''id'', optchain (JObj kvs) ''id''),
                       (''error'', JObj [(''code'', JNum (- 32602)),
                                         (''message'', JStr ''Missing tool name in parameters'')])]), w)"
        by (intro handleRequest_missing_name) simp_all
      then show ?thesis
        by (simp add: well_formed_envelope_def has_field_def optchain_def)
    next
      case True
      with name_ok m call obtain n where n: "optchain (optchain (JObj kvs) ''params'') ''name'' = JStr n"
        by auto
      with True have "n \<noteq> []" by simp
      with m call n have "handleRequest this net (JObj kvs) w =
           forwardRequest net (if isAtlassianTool n then atlassianServerUrl this else existingServerUrl this)
             (JObj kvs) w"
        by (intro handleRequest_tools_call) simp_all
      with fwd show ?thesis by simp
    qed
  next
    case other
    obtain r1 where r1: "fst (forwardRequest net (existingServerUrl this) (JObj kvs) w) = Inr r1"
      and c1: "(transport_failure (net (calls w) (existingServerUrl this) (JObj kvs)) \<noteq> None \<and>
                 well_formed_envelope r1 \<and> truthy (optchain r1 ''error'')) \<or>
               (transport_failure (net (calls w) (existingServerUrl this) (JObj kvs)) = None \<and>
                 (\<exists>b. net (calls w) (existingServerUrl this) (JObj kvs) = Responded b \<and> ok b \<and> json b = Inr r1))"
      using forwardRequest_obj_cases [of net "existingServerUrl this" kvs w] by blast
    obtain w' where f: "forwardRequest net (existingServerUrl this) (JObj kvs) w = (Inr r1, w')"
      using r1 by (cases "forwardRequest net (existingServerUrl this) (JObj kvs) w") simp
    have nn: "r1 \<noteq> JNull \<and> r1 \<noteq> JUndefined"
      using c1 no_null by (auto simp add: well_formed_envelope_def optchain_def)
    have h: "handleRequest this net (JObj kvs) w =
           (if truthy (optchain r1 ''error'')
            then forwardRequest net (atlassianServerUrl this) (JObj kvs) w'
            else (Inr r1, w'))"
      using m other f nn by (intro handleRequest_fallback) simp_all
    show ?thesis
    proof (cases "truthy (optchain r1 ''error'')")
      case True
      with h fwd show ?thesis by simp
    next
      case False
      with c1 have t: "transport_failure (net (calls w) (existingServerUrl this) (JObj kvs)) = None"
        and b: "\<exists>b. net (calls w) (existingServerUrl this) (JObj kvs) = Responded b \<and> ok b \<and> json b = Inr r1"
        by auto
      from b have body: "\<exists>h u m b. net h u m = Responded b \<and> ok b \<and> json b = Inr r1"
        by blast
      from t have up: "\<not> (\<forall>h u m. transport_failure (net h u m) \<noteq> None)"
        by blast
      from h False have "fst (handleRequest this net (JObj kvs) w) = Inr r1"
        by simp
      with body up show ?thesis by blast
    qed
  qed
qed

text \<open>With every backend down, a \<open>ping\<close> is answered with a well-formed envelope.\<close>

theorem handleRequest_returns_witness:
  "fst (handleRequest (new_McpAggregator env0) down (JObj ping) w0) =
     Inr (JObj [(''jsonrpc'', JStr ''2.0''), (''id'', JNum 7),
                (''error'', JObj [(''code'', JNum (- 32603)),
                                  (''message'', JStr ''Failed to contact server: Server responded with 503: Service Unavailable'')])]) \<and>
   well_formed_envelope
     (JObj [(''jsonrpc'', JStr ''2.0''), (''id'', JNum 7),
            (''error'', JObj [(''code'', JNum (- 32603)),
                              (''message'', JStr ''Failed to contact server: Server responded with 503: Service Unavailable'')])])"
proof -
  have a: "getprop (JObj ping) ''method'' = Inr (JStr ''tools/call'') \<longrightarrow>
      \<not> truthy (optchain (optchain (JObj ping) ''params'') ''name'') \<or>
      (\<exists>n. optchain (optchain (JObj ping) ''params'') ''name'' = JStr n)"
    by (simp add: ping_def)
  have b: "\<forall>h u m b. down h u m = Responded b \<longrightarrow> json b \<noteq> Inr JNull \<and> json b \<noteq> Inr JUndefined"
    by (auto simp add: down_def)
  have c: "\<forall>h u m. transport_failure (down h u m) \<noteq> None"
    by (simp add: down_def transport_failure_def)
  have e: "fst (handleRequest (new_McpAggregator env0) down (JObj ping) w0) =
     Inr (JObj [(''jsonrpc'', JStr ''2.0''), (''id'', JNum 7),
                (''error'', JObj [(''code'', JNum (- 32603)),
                                  (''message'', JStr ''Failed to contact server: Server responded with 503: Service Unavailable'')])])"
    by (simp add: handleRequest_def forwardRequest_def attempt_def caught_message_def ping_def optchain_def
          down_def w0_def Let_def show_nat.simps digit_def)
  from handleRequest_returns [OF a b, of "new_McpAggregator env0" w0] c e show ?thesis
    by auto
qed

end
